theory Spec2Isabelle
  imports Complex_Main "HOL-Library.Sublist"
begin

section \<open>Python values\<close>

text \<open>
  The development embeds the REST handlers of \<^verbatim>\<open>service/routes.py\<close> together with
  the library operations they call. Python strings are modelled as \<^typ>\<open>string\<close>,
  read as ASCII text; Python integers as \<^typ>\<open>int\<close>.
\<close>

subsection \<open>Strings\<close>

text \<open>
  \<^verbatim>\<open>str.upper()\<close>, \<^verbatim>\<open>str.lower()\<close> and \<^verbatim>\<open>str.strip()\<close> on ASCII text;
  \<open>is_space\<close> is the ASCII part of \<^verbatim>\<open>str.isspace()\<close>.
\<close>

definition is_space :: "char \<Rightarrow> bool" where
  "is_space c = ((9 \<le> (of_char c :: nat) \<and> (of_char c :: nat) \<le> 13)
                 \<or> (28 \<le> (of_char c :: nat) \<and> (of_char c :: nat) \<le> 32))"

definition upper_char :: "char \<Rightarrow> char" where
  "upper_char c = (if 97 \<le> (of_char c :: nat) \<and> (of_char c :: nat) \<le> 122
                   then char_of ((of_char c :: nat) - 32) else c)"

definition lower_char :: "char \<Rightarrow> char" where
  "lower_char c = (if 65 \<le> (of_char c :: nat) \<and> (of_char c :: nat) \<le> 90
                   then char_of ((of_char c :: nat) + 32) else c)"

definition upper :: "string \<Rightarrow> string" where
  "upper s = map upper_char s"

definition lower :: "string \<Rightarrow> string" where
  "lower s = map lower_char s"

definition strip :: "string \<Rightarrow> string" where
  "strip s = rev (dropWhile is_space (rev (dropWhile is_space s)))"

subsection \<open>Decimal digits\<close>

text \<open>
  \<open>int_of_digits\<close> is \<^verbatim>\<open>int(s)\<close> on a string of digits, \<open>str_of_nat\<close> and
  \<open>str_of_int\<close> are \<^verbatim>\<open>str(n)\<close>, and \<open>fmt_plus_d\<close> is \<^verbatim>\<open>"%+d" % n\<close>.
\<close>

definition is_digit :: "char \<Rightarrow> bool" where
  "is_digit c = (48 \<le> (of_char c :: nat) \<and> (of_char c :: nat) \<le> 57)"

definition digit_val :: "char \<Rightarrow> nat" where
  "digit_val c = (of_char c :: nat) - 48"

definition digit_char :: "nat \<Rightarrow> char" where
  "digit_char d = char_of (48 + d)"

definition int_of_digits :: "string \<Rightarrow> nat" where
  "int_of_digits s = foldl (\<lambda>a c. 10 * a + digit_val c) 0 s"

fun str_of_nat :: "nat \<Rightarrow> string" where
  "str_of_nat n = (if n < 10 then [digit_char n] else str_of_nat (n div 10) @ [digit_char (n mod 10)])"

declare str_of_nat.simps [simp del]

definition str_of_int :: "int \<Rightarrow> string" where
  "str_of_int i = (if i < 0 then CHR ''-'' # str_of_nat (nat (- i)) else str_of_nat (nat i))"

definition fmt_plus_d :: "int \<Rightarrow> string" where
  "fmt_plus_d n = (if n < 0 then CHR ''-'' # str_of_nat (nat (- n)) else CHR ''+'' # str_of_nat (nat n))"

subsection \<open>Decimal\<close>

text \<open>
  Python's \<^verbatim>\<open>decimal.Decimal\<close>. A finite number is a sign, a coefficient and an
  exponent (\<^verbatim>\<open>_sign\<close>, \<^verbatim>\<open>int(_int)\<close>, \<^verbatim>\<open>_exp\<close>) and denotes
  \<open>(-1)^sign * coefficient * 10^exponent\<close>; the special values are the infinities and the
  quiet and signalling NaNs with their diagnostic payload. The limits an implementation
  puts on the size of exponents and coefficients are not modelled.
\<close>

datatype Decimal =
    Finite bool nat int
  | Infinity bool
  | NaN bool nat
  | sNaN bool nat

text \<open>
  The exceptions of the module: both are raised as \<^verbatim>\<open>decimal.InvalidOperation\<close>, and
  \<open>exception_str\<close> is \<^verbatim>\<open>str(e)\<close>, the list of the signals that were raised.
\<close>

datatype DecimalException = ConversionSyntax | InvalidOperation

definition exception_str :: "DecimalException \<Rightarrow> string" where
  "exception_str e =
     (case e of
        ConversionSyntax \<Rightarrow>
          ''[<class '' @ [CHR 0x27] @ ''decimal.ConversionSyntax'' @ [CHR 0x27] @ ''>]''
      | InvalidOperation \<Rightarrow>
          ''[<class '' @ [CHR 0x27] @ ''decimal.InvalidOperation'' @ [CHR 0x27] @ ''>]'')"

text \<open>
  \<^verbatim>\<open>Decimal(value)\<close> for a string: surrounding whitespace is stripped, underscores are
  removed, and the rest must match the numeric-string syntax of the module: an optional
  sign, then either digits with an optional fraction and an optional exponent (at least
  one digit in all), or \<^verbatim>\<open>Inf\<close>, \<^verbatim>\<open>Infinity\<close>, \<^verbatim>\<open>NaN\<close> or \<^verbatim>\<open>sNaN\<close> with optional
  diagnostic digits, letters in either case. Anything else raises
  \<open>ConversionSyntax\<close>.
\<close>

definition all_digits :: "string \<Rightarrow> bool" where
  "all_digits s = (s \<noteq> [] \<and> list_all is_digit s)"

fun signed_int :: "string \<Rightarrow> int option" where
  "signed_int [] = None"
| "signed_int (c # t) =
     (if c = CHR ''-'' then (if all_digits t then Some (- int (int_of_digits t)) else None)
      else if c = CHR ''+'' then (if all_digits t then Some (int (int_of_digits t)) else None)
      else if all_digits (c # t) then Some (int (int_of_digits (c # t))) else None)"

fun split_sign :: "string \<Rightarrow> bool \<times> string" where
  "split_sign [] = (False, [])"
| "split_sign (c # t) =
     (if c = CHR ''-'' then (True, t) else if c = CHR ''+'' then (False, t) else (False, c # t))"

fun split_frac :: "string \<Rightarrow> string \<times> string" where
  "split_frac [] = ([], [])"
| "split_frac (c # t) =
     (if c = CHR ''.'' then (takeWhile is_digit t, dropWhile is_digit t) else ([], c # t))"

fun parse_exponent :: "string \<Rightarrow> int option" where
  "parse_exponent [] = Some 0"
| "parse_exponent (c # t) = (if c = CHR ''e'' \<or> c = CHR ''E'' then signed_int t else None)"

definition parse_number :: "bool \<Rightarrow> string \<Rightarrow> Decimal option" where
  "parse_number sg s =
     (let intpart = takeWhile is_digit s;
          (fracpart, rest) = split_frac (dropWhile is_digit s)
      in if intpart = [] \<and> fracpart = [] then None
         else (case parse_exponent rest of
                 None \<Rightarrow> None
               | Some e \<Rightarrow> Some (Finite sg (int_of_digits (intpart @ fracpart))
                                   (e - int (length fracpart)))))"

definition parse_special :: "bool \<Rightarrow> string \<Rightarrow> Decimal option" where
  "parse_special sg s =
     (let l = lower s
      in if l = ''inf'' \<or> l = ''infinity'' then Some (Infinity sg)
         else if take 3 l = ''nan'' \<and> list_all is_digit (drop 3 l)
           then Some (NaN sg (int_of_digits (drop 3 l)))
         else if take 4 l = ''snan'' \<and> list_all is_digit (drop 4 l)
           then Some (sNaN sg (int_of_digits (drop 4 l)))
         else None)"

definition Decimal_of_str :: "string \<Rightarrow> DecimalException + Decimal" where
  "Decimal_of_str v =
     (let (sg, s) = split_sign (filter (\<lambda>c. c \<noteq> CHR ''_'') (strip v))
      in case parse_number sg s of
           Some d \<Rightarrow> Inr d
         | None \<Rightarrow> (case parse_special sg s of
                       Some d \<Rightarrow> Inr d
                     | None \<Rightarrow> Inl ConversionSyntax))"

text \<open>\<^verbatim>\<open>Decimal(n)\<close> for an integer.\<close>

definition Decimal_of_int :: "int \<Rightarrow> Decimal" where
  "Decimal_of_int n = Finite (n < 0) (nat \<bar>n\<bar>) 0"

text \<open>
  \<^verbatim>\<open>str(d)\<close>: scientific notation with one digit before the point is used when the
  exponent is positive or the number has more than six leading zeros after the point.
\<close>

definition sign_str :: "bool \<Rightarrow> string" where
  "sign_str sg = (if sg then ''-'' else [])"

definition Decimal_str :: "Decimal \<Rightarrow> string" where
  "Decimal_str d =
     (case d of
        Infinity sg \<Rightarrow> sign_str sg @ ''Infinity''
      | NaN sg n \<Rightarrow> sign_str sg @ ''NaN'' @ (if n = 0 then [] else str_of_nat n)
      | sNaN sg n \<Rightarrow> sign_str sg @ ''sNaN'' @ (if n = 0 then [] else str_of_nat n)
      | Finite sg c e \<Rightarrow>
          (let ds = str_of_nat c;
               leftdigits = e + int (length ds);
               dotplace = (if e \<le> 0 \<and> leftdigits > - 6 then leftdigits else 1);
               intpart = (if dotplace \<le> 0 then ''0''
                          else if dotplace \<ge> int (length ds)
                            then ds @ replicate (nat (dotplace - int (length ds))) CHR ''0''
                          else take (nat dotplace) ds);
               fracpart = (if dotplace \<le> 0
                             then CHR ''.'' # replicate (nat (- dotplace)) CHR ''0'' @ ds
                           else if dotplace \<ge> int (length ds) then []
                           else CHR ''.'' # drop (nat dotplace) ds);
               exp = (if leftdigits = dotplace then []
                      else CHR ''E'' # fmt_plus_d (leftdigits - dotplace))
           in sign_str sg @ intpart @ fracpart @ exp))"

text \<open>
  \<^verbatim>\<open>a == b\<close> on decimals. A signalling NaN raises \<open>InvalidOperation\<close>, a quiet NaN
  equals nothing, and otherwise the numeric values are compared: zeros are equal
  whatever their sign and exponent, and \<^verbatim>\<open>10.0\<close> equals \<^verbatim>\<open>10.00\<close>.
\<close>

fun cmp_eq :: "Decimal \<Rightarrow> Decimal \<Rightarrow> bool" where
  "cmp_eq (Finite s1 c1 e1) (Finite s2 c2 e2) =
     (if c1 = 0 \<or> c2 = 0 then c1 = 0 \<and> c2 = 0
      else s1 = s2 \<and> c1 * 10 ^ nat (e1 - e2) = c2 * 10 ^ nat (e2 - e1))"
| "cmp_eq (Infinity s1) (Infinity s2) = (s1 = s2)"
| "cmp_eq a b = False"

fun is_snan :: "Decimal \<Rightarrow> bool" where
  "is_snan (sNaN sg n) = True"
| "is_snan d = False"

fun is_qnan :: "Decimal \<Rightarrow> bool" where
  "is_qnan (NaN sg n) = True"
| "is_qnan d = False"

definition Decimal_eq :: "Decimal \<Rightarrow> Decimal \<Rightarrow> DecimalException + bool" where
  "Decimal_eq a b =
     (if is_snan a \<or> is_snan b then Inl InvalidOperation
      else if is_qnan a \<or> is_qnan b then Inr False
      else Inr (cmp_eq a b))"

text \<open>The rational number a finite decimal denotes.\<close>

definition sign_factor :: "bool \<Rightarrow> rat" where
  "sign_factor sg = (if sg then - 1 else 1)"

fun Decimal_value :: "Decimal \<Rightarrow> rat option" where
  "Decimal_value (Finite sg c e) = Some (sign_factor sg * of_nat c * 10 powi e)"
| "Decimal_value d = None"

subsection \<open>JSON documents\<close>

text \<open>
  The value \<^verbatim>\<open>request.get_json()\<close> returns and \<^verbatim>\<open>jsonify\<close> takes. A \<^verbatim>\<open>dict\<close> is
  an association list read with \<^const>\<open>map_of\<close>. A JSON number without fraction and
  exponent is a Python \<^verbatim>\<open>int\<close>; any other is a \<^verbatim>\<open>float\<close>, here the finite binary
  fraction \<open>(-1)^sign * m / 2^k\<close> it stands for.
\<close>

datatype json =
    JNull
  | JBool bool
  | JInt int
  | JFloat bool nat nat
  | JStr string
  | JList "json list"
  | JDict "(string \<times> json) list"

text \<open>
  \<^verbatim>\<open>Decimal(x)\<close> for a float: the binary fraction is converted to the decimal of the
  same value, \<open>m / 2^k = m * 5^k / 10^k\<close>.
\<close>

definition Decimal_of_float :: "bool \<Rightarrow> nat \<Rightarrow> nat \<Rightarrow> Decimal" where
  "Decimal_of_float sg m k = Finite sg (m * 5 ^ k) (- int k)"



section \<open>The product model\<close>

subsection \<open>Category\<close>

text \<open>
  Modelled from the spec: the enumeration \<^verbatim>\<open>Category\<close> of \<^verbatim>\<open>service/models.py\<close>,
  which is not among the sources, with the members the spec names (section 3).
  \<open>Category_name\<close> is the attribute \<^verbatim>\<open>.name\<close> of a member and \<open>Category_by_name\<close> is
  \<^verbatim>\<open>getattr(Category, s)\<close>, where \<open>None\<close> stands for the \<^verbatim>\<open>AttributeError\<close>.
\<close>

datatype Category = UNKNOWN | CLOTHS | FOOD | AUTOMOTIVE | TOOLS

definition Category_name :: "Category \<Rightarrow> string" where
  "Category_name c =
     (case c of UNKNOWN \<Rightarrow> ''UNKNOWN'' | CLOTHS \<Rightarrow> ''CLOTHS'' | FOOD \<Rightarrow> ''FOOD''
      | AUTOMOTIVE \<Rightarrow> ''AUTOMOTIVE'' | TOOLS \<Rightarrow> ''TOOLS'')"

definition Category_by_name :: "string \<Rightarrow> Category option" where
  "Category_by_name s =
     (if s = ''UNKNOWN'' then Some UNKNOWN
      else if s = ''CLOTHS'' then Some CLOTHS
      else if s = ''FOOD'' then Some FOOD
      else if s = ''AUTOMOTIVE'' then Some AUTOMOTIVE
      else if s = ''TOOLS'' then Some TOOLS
      else None)"

subsection \<open>Product\<close>

text \<open>
  Modelled from the spec: the attributes of the class \<^verbatim>\<open>Product\<close> of
  \<^verbatim>\<open>service/models.py\<close> (spec section 3). The attribute \<^verbatim>\<open>id\<close> is \<open>id_field\<close> here;
  it is \<open>None\<close> until the store assigns it.
\<close>

record Product =
  id_field :: "int option"
  name :: string
  description :: string
  price :: Decimal
  available :: bool
  category :: Category

text \<open>
  Modelled from the spec: \<^verbatim>\<open>Product()\<close>, a record that has not been populated. Its
  identity is unset and its category is the default; the other attributes stand for
  values that are not set yet, and \<open>deserialize\<close> overwrites all of them.
\<close>

definition new_Product :: Product where
  "new_Product = \<lparr>id_field = None, name = [], description = [], price = Finite False 0 0,
                   available = False, category = UNKNOWN\<rparr>"

text \<open>
  Modelled from the spec: the validation error \<^verbatim>\<open>DataValidationError\<close> of
  \<^verbatim>\<open>service/models.py\<close> with its message.
\<close>

datatype DataValidationError = DataValidationError string

text \<open>
  Modelled from the spec: \<^verbatim>\<open>Product.serialize()\<close> (spec section 6): the five
  attributes and the identity, the category as its enumeration name and the price as
  a decimal-formatted string.
\<close>

definition serialize :: "Product \<Rightarrow> json" where
  "serialize self =
     JDict [(''id'', (case id_field self of None \<Rightarrow> JNull | Some i \<Rightarrow> JInt i)),
            (''name'', JStr (name self)),
            (''description'', JStr (description self)),
            (''price'', JStr (Decimal_str (price self))),
            (''available'', JBool (available self)),
            (''category'', JStr (Category_name (category self)))]"

text \<open>
  Modelled from the spec: the conversion of the \<^verbatim>\<open>price\<close> of a request body (spec
  section 4.1): a string or a number becomes the exact decimal; \<open>None\<close> stands for
  input that is neither.
\<close>

fun Decimal_of_json :: "json \<Rightarrow> Decimal option" where
  "Decimal_of_json (JStr s) = (case Decimal_of_str s of Inr d \<Rightarrow> Some d | Inl e \<Rightarrow> None)"
| "Decimal_of_json (JInt n) = Some (Decimal_of_int n)"
| "Decimal_of_json (JFloat sg m k) = Some (Decimal_of_float sg m k)"
| "Decimal_of_json j = None"

text \<open>
  Modelled from the spec: the error for a field that is absent, with the message
  \<^verbatim>\<open>test_deserialize_missing_data\<close> expects.
\<close>

definition missing :: "string \<Rightarrow> DataValidationError" where
  "missing field = DataValidationError (''Invalid product: missing '' @ field)"

text \<open>
  Modelled from the spec: the type checks of \<^verbatim>\<open>Product.deserialize\<close> (spec sections
  4.1 and 7), made once all five fields are present: \<^verbatim>\<open>available\<close> must be a genuine
  boolean, \<^verbatim>\<open>category\<close> must name a member of the enumeration (in either case, spec
  section 6), and input of a wrong type is a validation error. The identity of the
  record is left as it is.
\<close>

definition populate :: "Product \<Rightarrow> json \<Rightarrow> json \<Rightarrow> json \<Rightarrow> json \<Rightarrow> json
    \<Rightarrow> DataValidationError + Product" where
  "populate self n ds pr av ca =
     (case n of
        JStr name' \<Rightarrow>
          (case ds of
             JStr description' \<Rightarrow>
               (case Decimal_of_json pr of
                  Some price' \<Rightarrow>
                    (case av of
                       JBool available' \<Rightarrow>
                         (case ca of
                            JStr c \<Rightarrow>
                              (case Category_by_name (upper c) of
                                 Some category' \<Rightarrow>
                                   Inr (self\<lparr>name := name', description := description',
                                          price := price', available := available',
                                          category := category'\<rparr>)
                               | None \<Rightarrow>
                                   Inl (DataValidationError
                                     (''Invalid attribute: '' @ [CHR 0x27] @ c @ [CHR 0x27])))
                          | _ \<Rightarrow> Inl (DataValidationError ''Invalid type for category''))
                     | _ \<Rightarrow> Inl (DataValidationError ''Invalid type for boolean [available]''))
                | None \<Rightarrow> Inl (DataValidationError ''Invalid value for price''))
           | _ \<Rightarrow> Inl (DataValidationError ''Invalid type for description''))
      | _ \<Rightarrow> Inl (DataValidationError ''Invalid type for name''))"

text \<open>
  Modelled from the spec: \<^verbatim>\<open>Product.deserialize(data)\<close> (spec section 4.1). Input that
  is not a mapping is rejected; a missing field is reported by its name, the fields
  being looked up in the order \<^verbatim>\<open>name\<close>, \<^verbatim>\<open>description\<close>, \<^verbatim>\<open>price\<close>,
  \<^verbatim>\<open>available\<close>, \<^verbatim>\<open>category\<close> of \<^verbatim>\<open>test_deserialize_missing_data\<close>; then the values
  are checked.
\<close>

definition deserialize :: "Product \<Rightarrow> json \<Rightarrow> DataValidationError + Product" where
  "deserialize self data =
     (case data of
        JDict d \<Rightarrow>
          (case map_of d ''name'' of
             None \<Rightarrow> Inl (missing ''name'')
           | Some n \<Rightarrow>
          (case map_of d ''description'' of
             None \<Rightarrow> Inl (missing ''description'')
           | Some ds \<Rightarrow>
          (case map_of d ''price'' of
             None \<Rightarrow> Inl (missing ''price'')
           | Some pr \<Rightarrow>
          (case map_of d ''available'' of
             None \<Rightarrow> Inl (missing ''available'')
           | Some av \<Rightarrow>
          (case map_of d ''category'' of
             None \<Rightarrow> Inl (missing ''category'')
           | Some ca \<Rightarrow> populate self n ds pr av ca)))))
      | _ \<Rightarrow>
          Inl (DataValidationError ''Invalid product: body of request contained bad or no data''))"

subsection \<open>The store\<close>

text \<open>
  Modelled from the spec: the relational store behind \<^verbatim>\<open>Product\<close> (spec sections 4.2
  and 6): the rows in store order and the next value of the auto-incrementing key.
\<close>

record store =
  rows :: "Product list"
  next_id :: int

text \<open>Modelled from the spec: \<^verbatim>\<open>Product.all()\<close> returns every record in store order.\<close>

definition all_products :: "store \<Rightarrow> Product list" where
  "all_products db = rows db"

text \<open>
  Modelled from the spec: \<^verbatim>\<open>Product.find(id)\<close> returns the matching record or the
  absence signal \<^verbatim>\<open>None\<close>; it never raises.
\<close>

definition find_product :: "int \<Rightarrow> store \<Rightarrow> Product option" where
  "find_product i db = find (\<lambda>p. id_field p = Some i) (rows db)"

text \<open>
  Modelled from the spec: \<^verbatim>\<open>Product.find_by_name(name).all()\<close> returns the records
  equal on the name.
\<close>

definition find_by_name :: "string \<Rightarrow> store \<Rightarrow> Product list" where
  "find_by_name n db = filter (\<lambda>p. name p = n) (rows db)"

text \<open>
  Modelled from the spec: \<^verbatim>\<open>Product.create()\<close> inserts the record as a new row and
  assigns and returns the identity the store generates. The result is that identity, the
  record that now carries it, and the store.
\<close>

definition create :: "Product \<Rightarrow> store \<Rightarrow> int \<times> Product \<times> store" where
  "create self db =
     (let i = next_id db;
          self' = self\<lparr>id_field := Some i\<rparr>
      in (i, self', db\<lparr>rows := rows db @ [self'], next_id := i + 1\<rparr>))"

text \<open>
  Modelled from the spec: \<^verbatim>\<open>Product.update()\<close> fails with a validation error if the
  identity is unset; otherwise the current field values are persisted in the row of
  that identity.
\<close>

definition update :: "Product \<Rightarrow> store \<Rightarrow> (DataValidationError + unit) \<times> store" where
  "update self db =
     (case id_field self of
        None \<Rightarrow> (Inl (DataValidationError ''Update called with empty ID field''), db)
      | Some i \<Rightarrow>
          (Inr (), db\<lparr>rows := map (\<lambda>q. if id_field q = Some i then self else q) (rows db)\<rparr>))"

text \<open>Modelled from the spec: \<^verbatim>\<open>Product.delete()\<close> removes the row matching the id.\<close>

definition delete :: "Product \<Rightarrow> store \<Rightarrow> store" where
  "delete self db = db\<lparr>rows := filter (\<lambda>q. id_field q \<noteq> id_field self) (rows db)\<rparr>"

section \<open>HTTP resource handlers\<close>

text \<open>
  What a handler of \<^verbatim>\<open>service/routes.py\<close> reads of a request: the value of the
  \<^verbatim>\<open>Content-Type\<close> header, if the header is there, and the JSON document of the body,
  \<open>None\<close> when the body does not decode. The query string of a GET request is an
  association list, and \<^verbatim>\<open>request.args.get(key)\<close> is \<^const>\<open>map_of\<close>.
\<close>

record request =
  Content_Type :: "string option"
  json_body :: "json option"

text \<open>
  A handler returns a body, a status code and headers, is left through
  \<^verbatim>\<open>abort(status, description)\<close>, or lets a \<^verbatim>\<open>DataValidationError\<close> escape.
\<close>

datatype body = Json json | Text string

datatype outcome =
    Return body nat "(string \<times> string) list"
  | Aborted nat string
  | Raised DataValidationError

abbreviation HTTP_200_OK :: nat where
  "HTTP_200_OK \<equiv> 200"

abbreviation HTTP_201_CREATED :: nat where
  "HTTP_201_CREATED \<equiv> 201"

abbreviation HTTP_204_NO_CONTENT :: nat where
  "HTTP_204_NO_CONTENT \<equiv> 204"

abbreviation HTTP_400_BAD_REQUEST :: nat where
  "HTTP_400_BAD_REQUEST \<equiv> 400"

abbreviation HTTP_404_NOT_FOUND :: nat where
  "HTTP_404_NOT_FOUND \<equiv> 404"

abbreviation HTTP_415_UNSUPPORTED_MEDIA_TYPE :: nat where
  "HTTP_415_UNSUPPORTED_MEDIA_TYPE \<equiv> 415"

text \<open>
  Modelled from the spec: the error handlers of \<^verbatim>\<open>service/common/error_handlers.py\<close>
  (spec section 7): a validation error always surfaces as HTTP 400; an abort carries
  its own status.
\<close>

definition status_code :: "outcome \<Rightarrow> nat" where
  "status_code r =
     (case r of
        Return b st hs \<Rightarrow> st
      | Aborted st msg \<Rightarrow> st
      | Raised err \<Rightarrow> HTTP_400_BAD_REQUEST)"

text \<open>
  \<^verbatim>\<open>check_content_type(content_type)\<close>: \<open>None\<close> when the function returns, the abort
  otherwise.
\<close>

definition check_content_type :: "string \<Rightarrow> request \<Rightarrow> outcome option" where
  "check_content_type content_type req =
     (case Content_Type req of
        None \<Rightarrow>
          Some (Aborted HTTP_415_UNSUPPORTED_MEDIA_TYPE (''Content-Type must be '' @ content_type))
      | Some v \<Rightarrow>
          if v = content_type then None
          else Some (Aborted HTTP_415_UNSUPPORTED_MEDIA_TYPE
                       (''Content-Type must be '' @ content_type)))"

text \<open>\<^verbatim>\<open>request.get_json()\<close>: a body that does not decode is a bad request.\<close>

definition get_json :: "request \<Rightarrow> outcome + json" where
  "get_json req =
     (case json_body req of
        None \<Rightarrow> Inl (Aborted HTTP_400_BAD_REQUEST ''Failed to decode JSON object'')
      | Some data \<Rightarrow> Inr data)"

text \<open>
  \<^verbatim>\<open>url_for("get_products", product_id=i, _external=True)\<close>, without the scheme and
  host of the server.
\<close>

definition url_for_get_products :: "int \<Rightarrow> string" where
  "url_for_get_products i = ''/products/'' @ str_of_int i"

text \<open>
  \<^verbatim>\<open>create_products()\<close>: the media type is checked, the body is read into a new
  record, the record is stored, and the answer carries the serialized record and the
  location of the identity \<^verbatim>\<open>product.id\<close> that \<^verbatim>\<open>create()\<close> assigned.
\<close>

definition create_products :: "request \<Rightarrow> store \<Rightarrow> outcome \<times> store" where
  "create_products req db =
     (case check_content_type ''application/json'' req of
        Some ab \<Rightarrow> (ab, db)
      | None \<Rightarrow>
          (case get_json req of
             Inl ab \<Rightarrow> (ab, db)
           | Inr data \<Rightarrow>
               (case deserialize new_Product data of
                  Inl err \<Rightarrow> (Raised err, db)
                | Inr product \<Rightarrow>
                    (let (i, product', db') = create product db
                     in (Return (Json (serialize product')) HTTP_201_CREATED
                           [(''Location'', url_for_get_products i)], db')))))"

text \<open>
  \<^verbatim>\<open>if v:\<close> for the value of a query parameter: the branch is taken, with the
  string, exactly when the parameter is given and its value is not empty.
\<close>

definition truthy :: "string option \<Rightarrow> string option" where
  "truthy v = (case v of None \<Rightarrow> None | Some s \<Rightarrow> if s = [] then None else Some s)"

text \<open>
  \<^verbatim>\<open>[p for p in products if p.price == price_decimal]\<close>: the comparison can raise,
  and then the comprehension does.
\<close>

fun filter_price :: "Decimal \<Rightarrow> Product list \<Rightarrow> DecimalException + Product list" where
  "filter_price price_decimal [] = Inr []"
| "filter_price price_decimal (p # products) =
     (case Decimal_eq (price p) price_decimal of
        Inl e \<Rightarrow> Inl e
      | Inr b \<Rightarrow>
          (case filter_price price_decimal products of
             Inl e \<Rightarrow> Inl e
           | Inr rest \<Rightarrow> Inr (if b then p # rest else rest)))"

definition results :: "Product list \<Rightarrow> outcome" where
  "results products = Return (Json (JList (map serialize products))) HTTP_200_OK []"

text \<open>
  \<^verbatim>\<open>list_products()\<close>: the four \<^verbatim>\<open>if\<close> blocks in their order, each working on the
  list the one before left.
\<close>

definition list_products :: "(string \<times> string) list \<Rightarrow> store \<Rightarrow> outcome" where
  "list_products args db =
     (let products = all_products db;
          products = (case truthy (map_of args ''name'') of
                        Some n \<Rightarrow> find_by_name n db
                      | None \<Rightarrow> products)
      in case (case truthy (map_of args ''category'') of
                 Some c \<Rightarrow>
                   (case Category_by_name (upper c) of
                      Some category_enum \<Rightarrow>
                        Inr (filter (\<lambda>p. category p = category_enum) products)
                    | None \<Rightarrow>
                        Inl (Aborted HTTP_400_BAD_REQUEST (''Invalid category: '' @ c)))
               | None \<Rightarrow> Inr products) of
           Inl ab \<Rightarrow> ab
         | Inr products \<Rightarrow>
             (let products = (case truthy (map_of args ''available'') of
                                Some a \<Rightarrow>
                                  (let available_bool = (lower a = ''true'')
                                   in filter (\<lambda>p. available p = available_bool) products)
                              | None \<Rightarrow> products)
              in case truthy (map_of args ''price'') of
                   Some pr \<Rightarrow>
                     (case Decimal_of_str pr of
                        Inl e \<Rightarrow>
                          Aborted HTTP_400_BAD_REQUEST
                            (''Invalid price format: '' @ pr @ '' - '' @ exception_str e)
                      | Inr price_decimal \<Rightarrow>
                          (case filter_price price_decimal products of
                             Inl e \<Rightarrow>
                               Aborted HTTP_400_BAD_REQUEST
                                 (''Invalid price format: '' @ pr @ '' - '' @ exception_str e)
                           | Inr products \<Rightarrow> results products))
                 | None \<Rightarrow> results products))"

text \<open>
  \<^verbatim>\<open>update_products(product_id)\<close>: the media type is checked first, then the record
  is looked up, then the body is read into it, the identity of the path is kept and the
  record is written back.
\<close>

definition update_products :: "int \<Rightarrow> request \<Rightarrow> store \<Rightarrow> outcome \<times> store" where
  "update_products product_id req db =
     (case check_content_type ''application/json'' req of
        Some ab \<Rightarrow> (ab, db)
      | None \<Rightarrow>
          (case find_product product_id db of
             None \<Rightarrow>
               (Aborted HTTP_404_NOT_FOUND
                  (''Product with id '' @ [CHR 0x27] @ str_of_int product_id @ [CHR 0x27]
                     @ '' was not found.''), db)
           | Some product \<Rightarrow>
               (case get_json req of
                  Inl ab \<Rightarrow> (ab, db)
                | Inr data \<Rightarrow>
                    (case deserialize product data of
                       Inl err \<Rightarrow> (Raised err, db)
                     | Inr product' \<Rightarrow>
                         (let product'' = product'\<lparr>id_field := Some product_id\<rparr>
                          in case update product'' db of
                               (Inl err, db') \<Rightarrow> (Raised err, db')
                             | (Inr u, db') \<Rightarrow>
                                 (Return (Json (serialize product'')) HTTP_200_OK [], db'))))))"

text \<open>
  \<^verbatim>\<open>delete_products(product_id)\<close>: the record is deleted when it is found, and the
  answer is 204 with an empty body either way.
\<close>

definition delete_products :: "int \<Rightarrow> store \<Rightarrow> outcome \<times> store" where
  "delete_products product_id db =
     (let product = find_product product_id db;
          db' = (case product of Some p \<Rightarrow> delete p db | None \<Rightarrow> db)
      in (Return (Text []) HTTP_204_NO_CONTENT [], db'))"

section \<open>The specification's reading\<close>

text \<open>
  The definitions of this section follow the words of the specification; the theorems
  compare them with the handlers above.
\<close>

text \<open>The five fields a request body must carry (spec section 4.1).\<close>

definition required_fields :: "string list" where
  "required_fields = [''name'', ''description'', ''price'', ''available'', ''category'']"

text \<open>
  The filter pipeline of spec section 4.3, one function per stage, where a parameter
  counts as given when it has a value that is not empty: the base collection is the
  result of the name lookup if a name is given and every record otherwise; the
  category, availability and price stages each keep the records of their input that
  are equal on that field.
\<close>

definition base_collection :: "(string \<times> string) list \<Rightarrow> store \<Rightarrow> Product list" where
  "base_collection args db =
     (case truthy (map_of args ''name'') of
        Some n \<Rightarrow> find_by_name n db
      | None \<Rightarrow> all_products db)"

definition category_filter :: "(string \<times> string) list \<Rightarrow> Product list \<Rightarrow> Product list" where
  "category_filter args products =
     (case truthy (map_of args ''category'') of
        Some c \<Rightarrow> filter (\<lambda>p. Category_by_name (upper c) = Some (category p)) products
      | None \<Rightarrow> products)"

definition available_filter :: "(string \<times> string) list \<Rightarrow> Product list \<Rightarrow> Product list" where
  "available_filter args products =
     (case truthy (map_of args ''available'') of
        Some a \<Rightarrow> filter (\<lambda>p. available p = (lower a = ''true'')) products
      | None \<Rightarrow> products)"

definition price_filter :: "(string \<times> string) list \<Rightarrow> Product list \<Rightarrow> Product list" where
  "price_filter args products =
     (case truthy (map_of args ''price'') of
        Some pr \<Rightarrow>
          filter (\<lambda>p. case Decimal_of_str pr of
                         Inr d \<Rightarrow> Decimal_eq (price p) d = Inr True
                       | Inl e \<Rightarrow> False) products
      | None \<Rightarrow> products)"

text \<open>
  A request that no stage refuses: its category, if given, names a member, and its
  price, if given, is a decimal other than a signalling NaN; and a store that holds no
  signalling NaN as a price.
\<close>

definition accepted :: "(string \<times> string) list \<Rightarrow> bool" where
  "accepted args =
     ((case truthy (map_of args ''category'') of
         Some c \<Rightarrow> Category_by_name (upper c) \<noteq> None
       | None \<Rightarrow> True)
      \<and> (case truthy (map_of args ''price'') of
            Some pr \<Rightarrow> (case Decimal_of_str pr of Inr d \<Rightarrow> \<not> is_snan d | Inl e \<Rightarrow> False)
          | None \<Rightarrow> True))"

definition no_snan :: "store \<Rightarrow> bool" where
  "no_snan db = list_all (\<lambda>p. \<not> is_snan (price p)) (rows db)"

text \<open>
  The literal string \<^verbatim>\<open>true\<close> compared without regard to case, and a query string
  with one parameter left out.
\<close>

fun true_ci :: "string \<Rightarrow> bool" where
  "true_ci [c1, c2, c3, c4] =
     ((c1 = CHR ''t'' \<or> c1 = CHR ''T'') \<and> (c2 = CHR ''r'' \<or> c2 = CHR ''R'')
      \<and> (c3 = CHR ''u'' \<or> c3 = CHR ''U'') \<and> (c4 = CHR ''e'' \<or> c4 = CHR ''E''))"
| "true_ci s = False"

definition without :: "string \<Rightarrow> (string \<times> string) list \<Rightarrow> (string \<times> string) list" where
  "without k args = filter (\<lambda>kv. fst kv \<noteq> k) args"

subsection \<open>Auxiliary definitions\<close>

text \<open>
  The last \<^verbatim>\<open>if\<close> block of \<^verbatim>\<open>list_products\<close> with the \<^verbatim>\<open>return\<close>, as a function
  of the working set it starts from.
\<close>

definition price_block :: "(string \<times> string) list \<Rightarrow> Product list \<Rightarrow> outcome" where
  "price_block args products =
     (case truthy (map_of args ''price'') of
        Some pr \<Rightarrow>
          (case Decimal_of_str pr of
             Inl e \<Rightarrow>
               Aborted HTTP_400_BAD_REQUEST
                 (''Invalid price format: '' @ pr @ '' - '' @ exception_str e)
           | Inr price_decimal \<Rightarrow>
               (case filter_price price_decimal products of
                  Inl e \<Rightarrow>
                    Aborted HTTP_400_BAD_REQUEST
                      (''Invalid price format: '' @ pr @ '' - '' @ exception_str e)
                | Inr products \<Rightarrow> results products))
      | None \<Rightarrow> results products)"


subsection \<open>Example data\<close>

text \<open>
  The records of \<^verbatim>\<open>test_list_products_by_multiple_filters\<close> and the request body of
  \<^verbatim>\<open>test_create_product_bad_available\<close>, with the remaining fields filled in, and
  a request body with the price and the record of \<^verbatim>\<open>test_create_a_product\<close>.
\<close>

definition shirt :: Product where
  "shirt = \<lparr>id_field = Some 1, name = ''Shirt'', description = ''A shirt'',
             price = Finite False 1000 (- 2), available = True, category = CLOTHS\<rparr>"

definition shirt_db :: store where
  "shirt_db = \<lparr>rows = [shirt], next_id = 2\<rparr>"

definition pants :: Product where
  "pants = \<lparr>id_field = Some 2, name = ''Pants'', description = ''A pair of pants'',
             price = Finite False 2550 (- 2), available = False, category = CLOTHS\<rparr>"

definition food_shirt :: Product where
  "food_shirt = \<lparr>id_field = Some 3, name = ''Shirt'', description = ''A shirt to eat'',
                  price = Finite False 100 (- 1), available = True, category = FOOD\<rparr>"

definition shirts_db :: store where
  "shirts_db = \<lparr>rows = [shirt, pants, food_shirt], next_id = 4\<rparr>"



definition bad_available_body :: json where
  "bad_available_body =
     JDict [(''name'', JStr ''Hat''), (''description'', JStr ''A red hat''),
            (''price'', JStr ''12.50''), (''available'', JStr ''true''),
            (''category'', JStr ''CLOTHS'')]"

section \<open>Decimal strings\<close>










































section \<open>Decimal values\<close>

text \<open>
  The comparison of two finite decimals is the equality of the rational numbers they
  denote, and the conversions of integers and floats keep the value.
\<close>

lemma scaled_eq:
  fixes c1 c2 :: nat and e1 e2 :: int
  assumes "e2 \<le> e1"
  shows "(of_nat c1 :: rat) * 10 powi e1 = of_nat c2 * 10 powi e2
           \<longleftrightarrow> c1 * 10 ^ nat (e1 - e2) = c2"
proof -
  define n where "n = nat (e1 - e2)"
  have "(10 :: rat) powi e1 = 10 powi (e1 - e2) * 10 powi e2"
    by (simp add: power_int_add [symmetric])
  moreover have "(10 :: rat) powi (e1 - e2) = 10 ^ n"
    using assms by (simp add: power_int_def n_def)
  ultimately have p: "(10 :: rat) powi e1 = 10 ^ n * 10 powi e2"
    by simp
  have nz: "(10 :: rat) powi e2 \<noteq> 0"
    by simp
  have "(of_nat c1 :: rat) * 10 powi e1 = of_nat c2 * 10 powi e2
          \<longleftrightarrow> (of_nat c1 * 10 ^ n) * (10 :: rat) powi e2 = of_nat c2 * 10 powi e2"
    by (simp only: p mult.assoc)
  also have "\<dots> \<longleftrightarrow> (of_nat c1 :: rat) * 10 ^ n = of_nat c2"
    using nz by (simp only: mult_cancel_right) simp
  also have "(of_nat c1 :: rat) * 10 ^ n = of_nat (c1 * 10 ^ n)"
    by simp
  also have "(of_nat (c1 * 10 ^ n) :: rat) = of_nat c2 \<longleftrightarrow> c1 * 10 ^ n = c2"
    by (rule of_nat_eq_iff)
  finally show ?thesis
    by (simp only: n_def)
qed

lemma magnitude_eq:
  fixes c1 c2 :: nat and e1 e2 :: int
  shows "(of_nat c1 :: rat) * 10 powi e1 = of_nat c2 * 10 powi e2
           \<longleftrightarrow> c1 * 10 ^ nat (e1 - e2) = c2 * 10 ^ nat (e2 - e1)"
proof (cases "e2 \<le> e1")
  case True
  then show ?thesis
    using scaled_eq [OF True, of c1 c2] by simp
next
  case False
  then have le: "e1 \<le> e2"
    by simp
  have "(of_nat c1 :: rat) * 10 powi e1 = of_nat c2 * 10 powi e2
          \<longleftrightarrow> (of_nat c2 :: rat) * 10 powi e2 = of_nat c1 * 10 powi e1"
    by auto
  also have "\<dots> \<longleftrightarrow> c2 * 10 ^ nat (e2 - e1) = c1"
    by (rule scaled_eq [OF le])
  finally show ?thesis
    using False by auto
qed

lemma cmp_eq_value:
  "cmp_eq (Finite s1 c1 e1) (Finite s2 c2 e2)
     \<longleftrightarrow> Decimal_value (Finite s1 c1 e1) = Decimal_value (Finite s2 c2 e2)"
proof (cases "c1 = 0 \<or> c2 = 0")
  case True
  then show ?thesis
    by (auto simp: sign_factor_def)
next
  case False
  then have pos: "0 < (of_nat c1 :: rat) * 10 powi e1" "0 < (of_nat c2 :: rat) * 10 powi e2"
    by simp_all
  have "sign_factor s1 * of_nat c1 * 10 powi e1 = sign_factor s2 * of_nat c2 * 10 powi e2
          \<longleftrightarrow> s1 = s2 \<and> (of_nat c1 :: rat) * 10 powi e1 = of_nat c2 * 10 powi e2"
  proof (cases "s1 = s2")
    case True
    then show ?thesis
      by (auto simp: sign_factor_def)
  next
    case False
    have "- ((of_nat c1 :: rat) * 10 powi e1) \<noteq> of_nat c2 * 10 powi e2"
      "(of_nat c1 :: rat) * 10 powi e1 \<noteq> - (of_nat c2 * 10 powi e2)"
      using pos by linarith+
    with False show ?thesis
      by (cases s1; cases s2; simp add: sign_factor_def mult.assoc)
  qed
  then show ?thesis
    using False by (simp add: magnitude_eq)
qed



section \<open>Media type and outcome\<close>

lemma status_code_simps [simp]:
  "status_code (Return b st hs) = st"
  "status_code (Aborted st msg) = st"
  "status_code (Raised err) = 400"
  by (simp_all add: status_code_def)

lemma check_content_type_refuses:
  assumes "Content_Type req \<noteq> Some content_type"
  shows "check_content_type content_type req
           = Some (Aborted 415 (''Content-Type must be '' @ content_type))"
  using assms by (cases "Content_Type req") (simp_all add: check_content_type_def)

lemma check_content_type_accepts:
  assumes "Content_Type req = Some content_type"
  shows "check_content_type content_type req = None"
  using assms by (simp add: check_content_type_def)

section \<open>Updating a product\<close>

text \<open>
  C10: on PUT the media type is checked before the record is looked up. Whenever the
  \<^verbatim>\<open>Content-Type\<close> header is absent or is not exactly \<^verbatim>\<open>application/json\<close>, the
  handler aborts with 415 and leaves the store as it is, whether or not a product with
  the id exists; the status is never 404.
\<close>

theorem update_products_checks_media_type_first:
  assumes "Content_Type req \<noteq> Some ''application/json''"
  shows "update_products product_id req db
           = (Aborted 415 ''Content-Type must be application/json'', db)
         \<and> status_code (fst (update_products product_id req db)) = 415"
  using check_content_type_refuses [OF assms]
  by (simp add: update_products_def status_code_def)

theorem update_products_checks_media_type_first_witness:
  "find_product 0 \<lparr>rows = [], next_id = 1\<rparr> = None
   \<and> update_products 0 \<lparr>Content_Type = Some ''text/html'', json_body = Some JNull\<rparr>
        \<lparr>rows = [], next_id = 1\<rparr>
       = (Aborted 415 ''Content-Type must be application/json'', \<lparr>rows = [], next_id = 1\<rparr>)
   \<and> status_code (fst (update_products 0
          \<lparr>Content_Type = Some ''text/html'', json_body = Some JNull\<rparr>
          \<lparr>rows = [], next_id = 1\<rparr>)) = 415"
  using update_products_checks_media_type_first
    [of "\<lparr>Content_Type = Some ''text/html'', json_body = Some JNull\<rparr>" 0
        "\<lparr>rows = [], next_id = 1\<rparr>"]
  by (simp add: find_product_def status_code_def)

text \<open>Writing a record back replaces the row of its id and no other.\<close>

lemma find_map_replace:
  assumes "\<exists>q \<in> set xs. id_field q = Some i" and "id_field p = Some i"
  shows "find (\<lambda>q. id_field q = Some i) (map (\<lambda>q. if id_field q = Some i then p else q) xs) = Some p"
  using assms by (induction xs) auto

lemma find_map_other:
  assumes "j \<noteq> i" and "id_field p = Some i"
  shows "find (\<lambda>q. id_field q = Some j) (map (\<lambda>q. if id_field q = Some i then p else q) xs)
           = find (\<lambda>q. id_field q = Some j) xs"
  using assms by (induction xs) auto

lemma ids_map_replace:
  assumes "id_field p = Some i"
  shows "map id_field (map (\<lambda>q. if id_field q = Some i then p else q) xs) = map id_field xs"
  using assms by (induction xs) auto

text \<open>
  C8: \<^verbatim>\<open>update()\<close> on a record whose id is unset fails with a validation error and
  returns the store unchanged. When the id is set and a row of that id exists, the row
  then holds the current field values of the record, every other id still finds what it
  found before, and the ids of the rows are the same: nothing is inserted.
\<close>

theorem update_requires_id:
  "(id_field p = None \<longrightarrow> (\<exists>msg. update p db = (Inl (DataValidationError msg), db)))
   \<and> (\<forall>i. id_field p = Some i \<longrightarrow> (\<exists>q \<in> set (rows db). id_field q = Some i) \<longrightarrow>
          fst (update p db) = Inr ()
          \<and> find_product i (snd (update p db)) = Some p
          \<and> (\<forall>j. j \<noteq> i \<longrightarrow> find_product j (snd (update p db)) = find_product j db)
          \<and> map id_field (rows (snd (update p db))) = map id_field (rows db))"
proof (intro conjI allI impI)
  assume "id_field p = None"
  then show "\<exists>msg. update p db = (Inl (DataValidationError msg), db)"
    by (simp add: update_def)
next
  fix i
  assume i: "id_field p = Some i" and ex: "\<exists>q \<in> set (rows db). id_field q = Some i"
  show "fst (update p db) = Inr ()"
    using i by (simp add: update_def)
  show "find_product i (snd (update p db)) = Some p"
    using i find_map_replace [OF ex i] by (simp add: update_def find_product_def)
  show "map id_field (rows (snd (update p db))) = map id_field (rows db)"
    using i ids_map_replace [OF i] by (simp add: update_def)
  fix j
  assume "j \<noteq> i"
  then show "find_product j (snd (update p db)) = find_product j db"
    using i find_map_other [of j i p] by (simp add: update_def find_product_def)
qed

theorem update_requires_id_witness:
  "id_field new_Product = None
   \<and> (\<exists>msg. update new_Product shirt_db = (Inl (DataValidationError msg), shirt_db))
   \<and> find_product 1 (snd (update (shirt\<lparr>name := ''Blouse''\<rparr>) shirt_db))
       = Some (shirt\<lparr>name := ''Blouse''\<rparr>)"
  using update_requires_id [of new_Product shirt_db]
    update_requires_id [of "shirt\<lparr>name := ''Blouse''\<rparr>" shirt_db]
  by (simp add: new_Product_def shirt_db_def shirt_def)

section \<open>Reading a request body\<close>

lemma required_fields_cases:
  assumes "f \<in> set required_fields"
  shows "f = ''name'' \<or> f = ''description'' \<or> f = ''price'' \<or> f = ''available''
    \<or> f = ''category''"
  using assms by (simp add: required_fields_def)

lemma required_fields_present:
  assumes "\<forall>g \<in> set required_fields. g \<noteq> f \<longrightarrow> map_of d g \<noteq> None"
  shows "f \<noteq> ''name'' \<Longrightarrow> \<exists>v. map_of d ''name'' = Some v"
    and "f \<noteq> ''description'' \<Longrightarrow> \<exists>v. map_of d ''description'' = Some v"
    and "f \<noteq> ''price'' \<Longrightarrow> \<exists>v. map_of d ''price'' = Some v"
    and "f \<noteq> ''available'' \<Longrightarrow> \<exists>v. map_of d ''available'' = Some v"
    and "f \<noteq> ''category'' \<Longrightarrow> \<exists>v. map_of d ''category'' = Some v"
  using assms by (simp_all add: required_fields_def)

text \<open>
  C6: for every mapping that lacks exactly one of the five required fields,
  \<^verbatim>\<open>deserialize\<close> fails with the validation error whose message names that field;
  no record is produced, so the field is not defaulted.
\<close>

theorem deserialize_names_missing_field:
  assumes "f \<in> set required_fields" and "map_of d f = None"
    and "\<forall>g \<in> set required_fields. g \<noteq> f \<longrightarrow> map_of d g \<noteq> None"
  shows "deserialize self (JDict d) = Inl (DataValidationError (''Invalid product: missing '' @ f))"
proof -
  note present = required_fields_present [OF assms(3)]
  from required_fields_cases [OF assms(1)] show ?thesis
  proof (elim disjE)
    assume f: "f = ''name''"
    then show ?thesis
      using assms(2) by (simp add: deserialize_def missing_def)
  next
    assume f: "f = ''description''"
    then obtain n where "map_of d ''name'' = Some n"
      using present(1) by auto
    then show ?thesis
      using assms(2) f by (simp add: deserialize_def missing_def)
  next
    assume f: "f = ''price''"
    then obtain n ds where "map_of d ''name'' = Some n" "map_of d ''description'' = Some ds"
      using present(1,2) by auto
    then show ?thesis
      using assms(2) f by (simp add: deserialize_def missing_def)
  next
    assume f: "f = ''available''"
    then obtain n ds pr where "map_of d ''name'' = Some n" "map_of d ''description'' = Some ds"
      "map_of d ''price'' = Some pr"
      using present(1,2,3) by auto
    then show ?thesis
      using assms(2) f by (simp add: deserialize_def missing_def)
  next
    assume f: "f = ''category''"
    then obtain n ds pr av where "map_of d ''name'' = Some n"
      "map_of d ''description'' = Some ds" "map_of d ''price'' = Some pr"
      "map_of d ''available'' = Some av"
      using present(1,2,3,4) by auto
    then show ?thesis
      using assms(2) f by (simp add: deserialize_def missing_def)
  qed
qed

theorem deserialize_names_missing_field_witness:
  "''price'' \<in> set required_fields
   \<and> map_of [(''name'', JStr ''Test Product''), (''description'', JStr ''Some description''),
              (''available'', JBool True), (''category'', JStr ''FOOD'')] ''price'' = None
   \<and> deserialize new_Product
        (JDict [(''name'', JStr ''Test Product''), (''description'', JStr ''Some description''),
                (''available'', JBool True), (''category'', JStr ''FOOD'')])
       = Inl (DataValidationError ''Invalid product: missing price'')"
  using deserialize_names_missing_field
    [of "''price''"
        "[(''name'', JStr ''Test Product''), (''description'', JStr ''Some description''),
          (''available'', JBool True), (''category'', JStr ''FOOD'')]" new_Product]
  by (simp add: required_fields_def)

lemma populate_bad_available:
  assumes "\<forall>b. av \<noteq> JBool b"
  shows "\<exists>msg. populate self n ds pr av ca = Inl (DataValidationError msg)"
  using assms by (simp add: populate_def split: json.splits option.splits)

lemma deserialize_bad_available:
  assumes "map_of d ''available'' = Some v" and "\<forall>b. v \<noteq> JBool b"
  shows "\<exists>msg. deserialize self (JDict d) = Inl (DataValidationError msg)"
  using assms(1) populate_bad_available [OF assms(2)]
  by (simp add: deserialize_def missing_def split: option.splits)

text \<open>
  C7: for every mapping whose \<^verbatim>\<open>available\<close> is present and is not a boolean,
  \<^verbatim>\<open>deserialize\<close> fails with a validation error, and a POST with the media type
  \<^verbatim>\<open>application/json\<close> that carries such a body is answered with 400 and stores
  nothing.
\<close>

theorem bad_available_rejected:
  assumes "map_of d ''available'' = Some v" and "\<forall>b. v \<noteq> JBool b"
  shows "(\<exists>msg. deserialize self (JDict d) = Inl (DataValidationError msg))
         \<and> (Content_Type req = Some ''application/json'' \<longrightarrow> json_body req = Some (JDict d) \<longrightarrow>
              status_code (fst (create_products req db)) = 400
              \<and> snd (create_products req db) = db)"
proof (intro conjI impI)
  show "\<exists>msg. deserialize self (JDict d) = Inl (DataValidationError msg)"
    by (rule deserialize_bad_available [OF assms])
next
  assume ct: "Content_Type req = Some ''application/json''"
    and body: "json_body req = Some (JDict d)"
  obtain msg where msg: "deserialize new_Product (JDict d) = Inl (DataValidationError msg)"
    using deserialize_bad_available [OF assms] by blast
  have r: "create_products req db = (Raised (DataValidationError msg), db)"
    using check_content_type_accepts [OF ct] body msg
    by (simp add: create_products_def get_json_def)
  show "status_code (fst (create_products req db)) = 400"
    by (simp add: r status_code_def)
  show "snd (create_products req db) = db"
    by (simp add: r)
qed

theorem bad_available_rejected_witness:
  "(\<exists>msg. deserialize new_Product bad_available_body = Inl (DataValidationError msg))
   \<and> status_code (fst (create_products
        \<lparr>Content_Type = Some ''application/json'', json_body = Some bad_available_body\<rparr>
        \<lparr>rows = [], next_id = 1\<rparr>)) = 400
   \<and> snd (create_products
        \<lparr>Content_Type = Some ''application/json'', json_body = Some bad_available_body\<rparr>
        \<lparr>rows = [], next_id = 1\<rparr>) = \<lparr>rows = [], next_id = 1\<rparr>"
  using bad_available_rejected
    [of "[(''name'', JStr ''Hat''), (''description'', JStr ''A red hat''),
          (''price'', JStr ''12.50''), (''available'', JStr ''true''),
          (''category'', JStr ''CLOTHS'')]" "JStr ''true''" new_Product
        "\<lparr>Content_Type = Some ''application/json'', json_body = Some bad_available_body\<rparr>"
        "\<lparr>rows = [], next_id = 1\<rparr>"]
  by (simp add: bad_available_body_def)

text \<open>
  Without the media type the same body is answered with 415: the body is not read.
\<close>

theorem bad_available_without_media_type:
  "create_products \<lparr>Content_Type = None, json_body = Some bad_available_body\<rparr>
     \<lparr>rows = [], next_id = 1\<rparr>
     = (Aborted 415 ''Content-Type must be application/json'', \<lparr>rows = [], next_id = 1\<rparr>)
   \<and> status_code (fst (create_products
        \<lparr>Content_Type = None, json_body = Some bad_available_body\<rparr>
        \<lparr>rows = [], next_id = 1\<rparr>)) = 415"
  by (simp add: create_products_def check_content_type_def status_code_def)

section \<open>Serializing and reading back\<close>














section \<open>Listing products\<close>

subsection \<open>The price block\<close>

lemma filter_price_Inr:
  "filter_price d ps = Inr r \<Longrightarrow> r = filter (\<lambda>p. Decimal_eq (price p) d = Inr True) ps"
  by (induction ps arbitrary: r) (auto split: sum.splits if_splits)

lemma filter_price_filter:
  "filter_price d ps = Inr r \<Longrightarrow> \<exists>r'. filter_price d (filter P ps) = Inr r'"
  by (induction ps arbitrary: r) (auto split: sum.splits if_splits)

lemma filter_price_total:
  assumes "\<not> is_snan d" and "list_all (\<lambda>p. \<not> is_snan (price p)) ps"
  shows "filter_price d ps = Inr (filter (\<lambda>p. Decimal_eq (price p) d = Inr True) ps)"
  using assms by (induction ps) (auto simp: Decimal_eq_def)

lemma truthy_Some: "truthy v = Some s \<longleftrightarrow> v = Some s \<and> s \<noteq> []"
  by (cases v) (auto simp: truthy_def)

lemma price_block_absent:
  assumes "truthy (map_of args ''price'') = None"
  shows "price_block args ws = results ws" and "price_filter args ws = ws"
  using assms by (simp_all add: price_block_def price_filter_def)

lemma price_block_malformed:
  assumes "truthy (map_of args ''price'') = Some pr" and "Decimal_of_str pr = Inl e"
  shows "price_block args ws
           = Aborted 400 (''Invalid price format: '' @ pr @ '' - '' @ exception_str e)"
  using assms by (simp add: price_block_def)

lemma price_filter_parsed:
  assumes "truthy (map_of args ''price'') = Some pr" and "Decimal_of_str pr = Inr d"
  shows "price_filter args ws = filter (\<lambda>p. Decimal_eq (price p) d = Inr True) ws"
  using assms by (simp add: price_filter_def)

lemma price_block_Return:
  assumes "price_block args ws = Return b st hs"
  shows "b = Json (JList (map serialize (price_filter args ws))) \<and> st = 200 \<and> hs = []"
proof (cases "truthy (map_of args ''price'')")
  case None
  then show ?thesis
    using assms by (auto simp: price_block_absent results_def)
next
  case (Some pr)
  show ?thesis
  proof (cases "Decimal_of_str pr")
    case (Inl e)
    then show ?thesis
      using assms Some by (simp add: price_block_def)
  next
    case (Inr d)
    show ?thesis
    proof (cases "filter_price d ws")
      case (Inl e)
      then show ?thesis
        using assms Some Inr by (simp add: price_block_def)
    next
      case r: (Inr ps)
      have "ps = price_filter args ws"
        using filter_price_Inr [OF r] price_filter_parsed [OF Some Inr] by simp
      then show ?thesis
        using assms Some Inr r by (auto simp: price_block_def results_def)
    qed
  qed
qed

lemma price_block_total:
  assumes "case truthy (map_of args ''price'') of
             Some pr \<Rightarrow> (case Decimal_of_str pr of Inr d \<Rightarrow> \<not> is_snan d | Inl e \<Rightarrow> False)
           | None \<Rightarrow> True"
    and "list_all (\<lambda>p. \<not> is_snan (price p)) ws"
  shows "price_block args ws = results (price_filter args ws)"
proof (cases "truthy (map_of args ''price'')")
  case None
  then show ?thesis
    by (simp add: price_block_absent)
next
  case (Some pr)
  with assms(1) obtain d where d: "Decimal_of_str pr = Inr d" and ns: "\<not> is_snan d"
    by (cases "Decimal_of_str pr") simp_all
  show ?thesis
    using Some d filter_price_total [OF ns assms(2)] price_filter_parsed [OF Some d]
    by (simp add: price_block_def)
qed

lemma price_block_narrowed:
  assumes "price_block args ws = Return b st hs"
  shows "\<exists>b'. price_block args (filter P ws) = Return b' 200 []"
proof (cases "truthy (map_of args ''price'')")
  case None
  then show ?thesis
    by (simp add: price_block_absent results_def)
next
  case (Some pr)
  show ?thesis
  proof (cases "Decimal_of_str pr")
    case (Inl e)
    then show ?thesis
      using assms Some by (simp add: price_block_def)
  next
    case (Inr d)
    show ?thesis
    proof (cases "filter_price d ws")
      case (Inl e)
      then show ?thesis
        using assms Some Inr by (simp add: price_block_def)
    next
      case r: (Inr ps)
      from filter_price_filter [OF r] obtain r' where "filter_price d (filter P ws) = Inr r'"
        by blast
      then show ?thesis
        using Some Inr by (simp add: price_block_def results_def)
    qed
  qed
qed

subsection \<open>The handler by stages\<close>

lemma list_products_stages:
  "list_products args db =
     (case truthy (map_of args ''category'') of
        None \<Rightarrow> price_block args (available_filter args (base_collection args db))
      | Some c \<Rightarrow>
          (case Category_by_name (upper c) of
             None \<Rightarrow> Aborted 400 (''Invalid category: '' @ c)
           | Some e \<Rightarrow>
               price_block args
                 (available_filter args
                    (filter (\<lambda>p. category p = e) (base_collection args db)))))"
  unfolding list_products_def base_collection_def available_filter_def price_block_def Let_def
  by (simp split: option.splits)

lemma category_filter_absent:
  assumes "truthy (map_of args ''category'') = None"
  shows "category_filter args ws = ws"
  using assms by (simp add: category_filter_def)

lemma category_filter_member:
  assumes "truthy (map_of args ''category'') = Some c" and "Category_by_name (upper c) = Some e"
  shows "category_filter args ws = filter (\<lambda>p. category p = e) ws"
proof -
  have "filter (\<lambda>p. Category_by_name (upper c) = Some (category p)) ws
          = filter (\<lambda>p. category p = e) ws"
    using assms(2) by (auto intro: filter_cong)
  then show ?thesis
    using assms(1) by (simp add: category_filter_def)
qed

lemma list_products_Return:
  assumes "list_products args db = Return b st hs"
  shows "b = Json (JList (map serialize
            (price_filter args (available_filter args (category_filter args
               (base_collection args db))))))
         \<and> st = 200 \<and> hs = []"
proof (cases "truthy (map_of args ''category'')")
  case None
  then show ?thesis
    using assms price_block_Return [of args _ b st hs]
    by (simp add: list_products_stages category_filter_absent)
next
  case (Some c)
  show ?thesis
  proof (cases "Category_by_name (upper c)")
    case None
    then show ?thesis
      using assms Some by (simp add: list_products_stages)
  next
    case e: (Some e)
    show ?thesis
      using assms Some e price_block_Return [of args _ b st hs]
      by (simp add: list_products_stages category_filter_member [OF Some e])
  qed
qed

lemma no_snan_stages:
  assumes "no_snan db"
  shows "list_all (\<lambda>p. \<not> is_snan (price p))
           (available_filter args (category_filter args (base_collection args db)))"
proof -
  have "set (available_filter args (category_filter args (base_collection args db)))
          \<subseteq> set (rows db)"
    by (auto simp: available_filter_def category_filter_def base_collection_def
        find_by_name_def all_products_def split: option.splits)
  then show ?thesis
    using assms by (auto simp: no_snan_def list_all_iff)
qed

lemma list_products_results:
  assumes "accepted args" and "no_snan db"
  shows "list_products args db
           = results (price_filter args (available_filter args (category_filter args
               (base_collection args db))))"
proof -
  have pr: "case truthy (map_of args ''price'') of
              Some pr \<Rightarrow> (case Decimal_of_str pr of Inr d \<Rightarrow> \<not> is_snan d | Inl e \<Rightarrow> False)
            | None \<Rightarrow> True"
    using assms(1) by (simp add: accepted_def)
  note total = price_block_total [OF pr no_snan_stages [OF assms(2), of args]]
  show ?thesis
  proof (cases "truthy (map_of args ''category'')")
    case None
    then show ?thesis
      using total by (simp add: list_products_stages category_filter_absent)
  next
    case (Some c)
    with assms(1) obtain e where e: "Category_by_name (upper c) = Some e"
      by (auto simp: accepted_def)
    show ?thesis
      using total Some e
      by (simp add: list_products_stages category_filter_member [OF Some e])
  qed
qed

subsection \<open>The category parameter\<close>

text \<open>
  C3: for every request whose \<^verbatim>\<open>category\<close> parameter has a value that is not empty,
  the value is upper-cased and looked up in the enumeration. If the name is not a
  member the handler aborts with 400 and the message names the value, whatever the
  other parameters are. If it is a member, the records are filtered by it: without a
  price parameter the answer is the records of that category in the base collection,
  filtered by availability if that is asked for, and every record of any successful
  answer has that category.
\<close>

theorem category_filter_rejects_unknown_names:
  assumes "map_of args ''category'' = Some c" and "c \<noteq> []"
  shows "(Category_by_name (upper c) = None \<longrightarrow>
            list_products args db = Aborted 400 (''Invalid category: '' @ c)
            \<and> status_code (list_products args db) = 400)
         \<and> (\<forall>e. Category_by_name (upper c) = Some e \<longrightarrow>
               (truthy (map_of args ''price'') = None \<longrightarrow>
                  list_products args db
                    = results (available_filter args
                        (filter (\<lambda>p. category p = e) (base_collection args db))))
               \<and> (\<forall>b st hs. list_products args db = Return b st hs \<longrightarrow>
                     (\<exists>ps. b = Json (JList (map serialize ps))
                            \<and> (\<forall>p \<in> set ps. category p = e))))"
proof (intro conjI impI allI)
  have t: "truthy (map_of args ''category'') = Some c"
    using assms by (simp add: truthy_Some)
  {
    assume "Category_by_name (upper c) = None"
    then show r: "list_products args db = Aborted 400 (''Invalid category: '' @ c)"
      using t by (simp add: list_products_stages)
    show "status_code (list_products args db) = 400"
      by (simp add: r)
  }
  fix e
  assume e: "Category_by_name (upper c) = Some e"
  {
    assume "truthy (map_of args ''price'') = None"
    then show "list_products args db
                 = results (available_filter args
                     (filter (\<lambda>p. category p = e) (base_collection args db)))"
      using t e by (simp add: list_products_stages price_block_absent)
  }
  fix b st hs
  assume "list_products args db = Return b st hs"
  from list_products_Return [OF this]
  have b: "b = Json (JList (map serialize
            (price_filter args (available_filter args (category_filter args
               (base_collection args db))))))"
    by simp
  have "\<forall>p \<in> set (category_filter args (base_collection args db)). category p = e"
    by (simp add: category_filter_member [OF t e])
  moreover have "set (price_filter args (available_filter args xs)) \<subseteq> set xs" for xs
    by (auto simp: price_filter_def available_filter_def split: option.splits)
  ultimately have "\<forall>p \<in> set (price_filter args (available_filter args (category_filter args
               (base_collection args db)))). category p = e"
    by blast
  with b show "\<exists>ps. b = Json (JList (map serialize ps)) \<and> (\<forall>p \<in> set ps. category p = e)"
    by blast
qed

lemma upper_examples:
  "upper ''unknown_category'' = ''UNKNOWN_CATEGORY''" "upper ''cloths'' = ''CLOTHS''"
  "upper ''CLOTHS'' = ''CLOTHS''" "upper ''bogus'' = ''BOGUS''"
  by code_simp+

theorem category_filter_rejects_unknown_names_witness:
  "map_of [(''category'', ''unknown_category'')] ''category'' = Some ''unknown_category''
   \<and> Category_by_name (upper ''unknown_category'') = None
   \<and> list_products [(''category'', ''unknown_category'')] shirts_db
       = Aborted 400 ''Invalid category: unknown_category''
   \<and> status_code (list_products [(''category'', ''unknown_category'')] shirts_db) = 400
   \<and> Category_by_name (upper ''cloths'') = Some CLOTHS
   \<and> list_products [(''category'', ''cloths'')] shirts_db
       = Return (Json (JList [serialize shirt, serialize pants])) 200 []"
proof -
  have u: "Category_by_name (upper ''unknown_category'') = None"
    by (simp add: upper_examples Category_by_name_def)
  have k: "Category_by_name (upper ''cloths'') = Some CLOTHS"
    by (simp add: upper_examples Category_by_name_def)
  have ws: "available_filter [(''category'', ''cloths'')]
              (filter (\<lambda>p. category p = CLOTHS)
                 (base_collection [(''category'', ''cloths'')] shirts_db))
              = [shirt, pants]"
    by (simp add: available_filter_def base_collection_def truthy_def all_products_def
        shirts_db_def shirt_def pants_def food_shirt_def)
  have "list_products [(''category'', ''cloths'')] shirts_db = results [shirt, pants]"
    using category_filter_rejects_unknown_names
      [of "[(''category'', ''cloths'')]" "''cloths''" shirts_db] k ws
    by (simp add: truthy_def)
  then show ?thesis
    using category_filter_rejects_unknown_names
      [of "[(''category'', ''unknown_category'')]" "''unknown_category''" shirts_db] u k
    by (simp add: results_def)
qed

text \<open>
  A \<^verbatim>\<open>category\<close> parameter with an empty value is not looked up at all: the empty
  string names no member, and the answer is 200 with every record.
\<close>

theorem empty_category_is_ignored:
  "Category_by_name (upper []) = None
   \<and> list_products [(''category'', [])] shirt_db = Return (Json (JList [serialize shirt])) 200 []"
  by (simp add: Category_by_name_def upper_def list_products_def truthy_def all_products_def
      shirt_db_def results_def)

subsection \<open>The price parameter\<close>

lemma Decimal_of_str_examples:
  "Decimal_of_str ''10.00'' = Inr (Finite False 1000 (- 2))"
  "Decimal_of_str ''abc'' = Inl ConversionSyntax"
  "Decimal_of_str [] = Inl ConversionSyntax"
  by code_simp+

lemma Decimal_eq_Finite:
  "Decimal_eq (Finite s1 c1 e1) (Finite s2 c2 e2)
     = Inr (Decimal_value (Finite s1 c1 e1) = Decimal_value (Finite s2 c2 e2))"
  using cmp_eq_value [of s1 c1 e1 s2 c2 e2] by (simp add: Decimal_eq_def)

text \<open>
  C4: for every request whose \<^verbatim>\<open>price\<close> parameter has a value that is not empty and
  whose \<^verbatim>\<open>category\<close> parameter, if it has a value, names a member: the value is read
  as a decimal, the type of the stored prices. If that fails the handler aborts with 400
  and the message holds the value and the failure. If it gives \<open>d\<close>, the answer holds
  exactly the records of the working set whose price equals \<open>d\<close> as a decimal: this is
  the answer whenever no signalling NaN is involved, and it is the body of every
  successful answer. Two finite decimals are equal exactly when they denote the same
  rational number.
\<close>

theorem price_filter_parses_decimal:
  assumes "map_of args ''price'' = Some pr" and "pr \<noteq> []"
    and "\<forall>c. map_of args ''category'' = Some c \<longrightarrow> c \<noteq> [] \<longrightarrow> Category_by_name (upper c) \<noteq> None"
  shows "(\<forall>e. Decimal_of_str pr = Inl e \<longrightarrow>
            list_products args db
              = Aborted 400 (''Invalid price format: '' @ pr @ '' - '' @ exception_str e)
            \<and> status_code (list_products args db) = 400)
         \<and> (\<forall>d. Decimal_of_str pr = Inr d \<longrightarrow>
               (\<not> is_snan d \<longrightarrow> no_snan db \<longrightarrow>
                  list_products args db
                    = results (filter (\<lambda>p. Decimal_eq (price p) d = Inr True)
                        (available_filter args (category_filter args
                           (base_collection args db)))))
               \<and> (\<forall>b st hs. list_products args db = Return b st hs \<longrightarrow>
                     b = Json (JList (map serialize
                           (filter (\<lambda>p. Decimal_eq (price p) d = Inr True)
                              (available_filter args (category_filter args
                                 (base_collection args db))))))))
         \<and> (\<forall>s1 c1 e1 s2 c2 e2.
               Decimal_eq (Finite s1 c1 e1) (Finite s2 c2 e2)
                 = Inr (Decimal_value (Finite s1 c1 e1) = Decimal_value (Finite s2 c2 e2)))"
proof (intro conjI impI allI)
  have t: "truthy (map_of args ''price'') = Some pr"
    using assms by (simp add: truthy_Some)
  have cat: "truthy (map_of args ''category'') = Some c \<Longrightarrow> \<exists>e. Category_by_name (upper c) = Some e"
    for c
    using assms(3) by (auto simp: truthy_Some)
  {
    fix e
    assume e: "Decimal_of_str pr = Inl e"
    show r: "list_products args db
               = Aborted 400 (''Invalid price format: '' @ pr @ '' - '' @ exception_str e)"
    proof (cases "truthy (map_of args ''category'')")
      case None
      then show ?thesis
        by (simp add: list_products_stages price_block_malformed [OF t e])
    next
      case (Some c)
      with cat obtain ce where "Category_by_name (upper c) = Some ce"
        by blast
      then show ?thesis
        using Some by (simp add: list_products_stages price_block_malformed [OF t e])
    qed
    show "status_code (list_products args db) = 400"
      by (simp add: r)
  }
  {
    fix d
    assume d: "Decimal_of_str pr = Inr d"
    {
      assume ns: "\<not> is_snan d" and db: "no_snan db"
      have "accepted args"
      proof -
        have "case truthy (map_of args ''category'') of
                Some c \<Rightarrow> Category_by_name (upper c) \<noteq> None | None \<Rightarrow> True"
          using cat by (cases "truthy (map_of args ''category'')") auto
        then show ?thesis
          using t d ns by (simp add: accepted_def)
      qed
      from list_products_results [OF this db]
      show "list_products args db
              = results (filter (\<lambda>p. Decimal_eq (price p) d = Inr True)
                  (available_filter args (category_filter args (base_collection args db))))"
        by (simp add: price_filter_parsed [OF t d])
    }
    fix b st hs
    assume "list_products args db = Return b st hs"
    from list_products_Return [OF this]
    show "b = Json (JList (map serialize
                     (filter (\<lambda>p. Decimal_eq (price p) d = Inr True)
                        (available_filter args (category_filter args
                           (base_collection args db))))))"
      by (simp add: price_filter_parsed [OF t d])
  }
  fix s1 c1 e1 s2 c2 e2
  show "Decimal_eq (Finite s1 c1 e1) (Finite s2 c2 e2)
          = Inr (Decimal_value (Finite s1 c1 e1) = Decimal_value (Finite s2 c2 e2))"
    by (rule Decimal_eq_Finite)
qed

theorem price_filter_parses_decimal_witness:
  "Decimal_of_str ''abc'' = Inl ConversionSyntax
   \<and> list_products [(''price'', ''abc'')] shirts_db
       = Aborted 400 (''Invalid price format: abc - '' @ exception_str ConversionSyntax)
   \<and> Decimal_of_str ''10.00'' = Inr (Finite False 1000 (- 2))
   \<and> no_snan shirts_db
   \<and> list_products [(''price'', ''10.00'')] shirts_db
       = Return (Json (JList [serialize shirt, serialize food_shirt])) 200 []"
proof -
  have db: "no_snan shirts_db"
    by (simp add: no_snan_def shirts_db_def shirt_def pants_def food_shirt_def)
  have ws: "filter (\<lambda>p. Decimal_eq (price p) (Finite False 1000 (- 2)) = Inr True)
              (available_filter [(''price'', ''10.00'')]
                 (category_filter [(''price'', ''10.00'')]
                    (base_collection [(''price'', ''10.00'')] shirts_db)))
              = [shirt, food_shirt]"
    by (simp add: available_filter_def category_filter_def base_collection_def truthy_def
        all_products_def shirts_db_def shirt_def pants_def food_shirt_def Decimal_eq_def)
  have "list_products [(''price'', ''10.00'')] shirts_db = results [shirt, food_shirt]"
    using price_filter_parses_decimal [of "[(''price'', ''10.00'')]" "''10.00''" shirts_db] db ws
    by (simp add: Decimal_of_str_examples)
  then show ?thesis
    using price_filter_parses_decimal [of "[(''price'', ''abc'')]" "''abc''" shirts_db] db
    by (simp add: Decimal_of_str_examples results_def)
qed

text \<open>
  A \<^verbatim>\<open>price\<close> parameter with an empty value is not read at all, although it is no
  decimal; and a malformed price behind an unknown category is reported as the
  category's error, without the price.
\<close>

theorem empty_or_shadowed_price_is_not_reported:
  "Decimal_of_str [] = Inl ConversionSyntax
   \<and> list_products [(''price'', [])] shirt_db = Return (Json (JList [serialize shirt])) 200 []
   \<and> Decimal_of_str ''abc'' = Inl ConversionSyntax
   \<and> list_products [(''category'', ''bogus''), (''price'', ''abc'')] shirt_db
       = Aborted 400 ''Invalid category: bogus''"
proof -
  have "Category_by_name (upper ''bogus'') = None"
    by (simp add: upper_examples Category_by_name_def)
  then show ?thesis
    by (simp add: Decimal_of_str_examples list_products_def truthy_def all_products_def
        shirt_db_def results_def)
qed

subsection \<open>The available parameter\<close>

lemma of_char_lower_char:
  "(of_char (lower_char c) :: nat)
     = (if 65 \<le> (of_char c :: nat) \<and> (of_char c :: nat) \<le> 90 then of_char c + 32 else of_char c)"
  by (simp add: lower_char_def)

lemma lower_char_eq_iff:
  assumes "97 \<le> (of_char l :: nat)" and "(of_char l :: nat) \<le> 122"
  shows "lower_char c = l \<longleftrightarrow> c = l \<or> (of_char c :: nat) + 32 = of_char l"
proof -
  have "lower_char c = l \<longleftrightarrow> (of_char (lower_char c) :: nat) = of_char l"
    by simp
  also have "\<dots> \<longleftrightarrow> (of_char c :: nat) = of_char l \<or> (of_char c :: nat) + 32 = of_char l"
    using assms by (auto simp: of_char_lower_char)
  finally show ?thesis
    by simp
qed

lemma upper_case_literals:
  "(of_char c :: nat) = 84 \<longleftrightarrow> c = CHR ''T''"
  "(of_char c :: nat) = 82 \<longleftrightarrow> c = CHR ''R''"
  "(of_char c :: nat) = 85 \<longleftrightarrow> c = CHR ''U''"
  "(of_char c :: nat) = 69 \<longleftrightarrow> c = CHR ''E''"
  using of_char_eq_iff [of c "CHR ''T''", where ?'a = nat]
    of_char_eq_iff [of c "CHR ''R''", where ?'a = nat]
    of_char_eq_iff [of c "CHR ''U''", where ?'a = nat]
    of_char_eq_iff [of c "CHR ''E''", where ?'a = nat]
  by simp_all

lemma lower_char_true:
  "lower_char c = CHR ''t'' \<longleftrightarrow> c = CHR ''t'' \<or> c = CHR ''T''"
  "lower_char c = CHR ''r'' \<longleftrightarrow> c = CHR ''r'' \<or> c = CHR ''R''"
  "lower_char c = CHR ''u'' \<longleftrightarrow> c = CHR ''u'' \<or> c = CHR ''U''"
  "lower_char c = CHR ''e'' \<longleftrightarrow> c = CHR ''e'' \<or> c = CHR ''E''"
  by (simp_all add: lower_char_eq_iff upper_case_literals)

lemma lower_true_ci: "lower a = ''true'' \<longleftrightarrow> true_ci a"
proof (cases a rule: true_ci.cases)
  case (1 c1 c2 c3 c4)
  then show ?thesis
    by (simp add: lower_def lower_char_true)
qed (simp_all add: lower_def)

lemma available_filter_given:
  assumes "truthy (map_of args ''available'') = Some a"
  shows "available_filter args ws = filter (\<lambda>p. available p = true_ci a) ws"
  using assms by (simp add: available_filter_def lower_true_ci)

lemma map_of_without:
  "map_of (without k args) k' = (if k' = k then None else map_of args k')"
  by (induction args) (auto simp: without_def)

lemma without_available:
  "base_collection (without ''available'' args) db = base_collection args db"
  "available_filter (without ''available'' args) ws = ws"
  "price_block (without ''available'' args) ws = price_block args ws"
  "truthy (map_of (without ''available'' args) ''category'') = truthy (map_of args ''category'')"
  by (simp_all add: base_collection_def available_filter_def price_block_def map_of_without
      truthy_def)

lemma price_block_available:
  assumes "price_block args ws = Return b st hs"
  shows "\<exists>b'. price_block args (available_filter args ws) = Return b' 200 []"
proof (cases "truthy (map_of args ''available'')")
  case None
  then have "available_filter args ws = ws"
    by (simp add: available_filter_def)
  then show ?thesis
    using assms price_block_Return [OF assms] by simp
next
  case (Some a)
  then show ?thesis
    using price_block_narrowed [OF assms] by (simp add: available_filter_given)
qed

lemma list_products_without_available:
  assumes "list_products (without ''available'' args) db = Return b st hs"
  shows "\<exists>b'. list_products args db = Return b' 200 []"
proof (cases "truthy (map_of args ''category'')")
  case None
  then show ?thesis
    using assms price_block_available [of args "base_collection args db" b st hs]
    by (simp add: list_products_stages without_available)
next
  case (Some c)
  show ?thesis
  proof (cases "Category_by_name (upper c)")
    case None
    then show ?thesis
      using assms Some by (simp add: list_products_stages without_available)
  next
    case e: (Some e)
    then show ?thesis
      using assms Some
        price_block_available
          [of args "filter (\<lambda>p. category p = e) (base_collection args db)" b st hs]
      by (simp add: list_products_stages without_available)
  qed
qed

text \<open>
  C5: for every request whose \<^verbatim>\<open>available\<close> parameter has a value that is not empty,
  the filter value is true exactly when the value is \<^verbatim>\<open>true\<close> in any mix of cases and
  false for every other value. Without category and price parameters the answer is the
  records of the base collection with that availability, and every record of any
  successful answer has that availability. The parameter never makes a request fail: if
  the request without it succeeds, so does the request with it.
\<close>

theorem available_filter_never_fails:
  assumes "map_of args ''available'' = Some a" and "a \<noteq> []"
  shows "(lower a = ''true'') = true_ci a
         \<and> (truthy (map_of args ''category'') = None \<longrightarrow>
             truthy (map_of args ''price'') = None \<longrightarrow>
               list_products args db
                 = results (filter (\<lambda>p. available p = true_ci a) (base_collection args db)))
         \<and> (\<forall>b st hs. list_products args db = Return b st hs \<longrightarrow>
               (\<exists>ps. b = Json (JList (map serialize ps))
                      \<and> (\<forall>p \<in> set ps. available p = true_ci a)))
         \<and> (\<forall>b st hs. list_products (without ''available'' args) db = Return b st hs \<longrightarrow>
               (\<exists>b'. list_products args db = Return b' 200 []))"
proof (intro conjI impI allI)
  show "(lower a = ''true'') = true_ci a"
    by (rule lower_true_ci)
  have t: "truthy (map_of args ''available'') = Some a"
    using assms by (simp add: truthy_Some)
  {
    assume "truthy (map_of args ''category'') = None" and "truthy (map_of args ''price'') = None"
    then show "list_products args db
                 = results (filter (\<lambda>p. available p = true_ci a) (base_collection args db))"
      by (simp add: list_products_stages price_block_absent available_filter_given [OF t])
  }
  {
    fix b st hs
    assume "list_products args db = Return b st hs"
    from list_products_Return [OF this]
    have b: "b = Json (JList (map serialize
              (price_filter args (available_filter args (category_filter args
                 (base_collection args db))))))"
      by simp
    have "\<forall>p \<in> set (available_filter args xs). available p = true_ci a" for xs
      by (simp add: available_filter_given [OF t])
    moreover have "set (price_filter args xs) \<subseteq> set xs" for xs
      by (auto simp: price_filter_def split: option.splits)
    ultimately have "\<forall>p \<in> set (price_filter args (available_filter args (category_filter args
                 (base_collection args db)))). available p = true_ci a"
      by blast
    with b show "\<exists>ps. b = Json (JList (map serialize ps)) \<and> (\<forall>p \<in> set ps. available p = true_ci a)"
      by blast
  }
  fix b st hs
  assume "list_products (without ''available'' args) db = Return b st hs"
  then show "\<exists>b'. list_products args db = Return b' 200 []"
    by (rule list_products_without_available)
qed

theorem available_filter_never_fails_witness:
  "map_of [(''available'', ''TrUe'')] ''available'' = Some ''TrUe''
   \<and> true_ci ''TrUe''
   \<and> list_products [(''available'', ''TrUe'')] shirts_db
       = Return (Json (JList [serialize shirt, serialize food_shirt])) 200 []
   \<and> \<not> true_ci ''yes''
   \<and> list_products [(''available'', ''yes'')] shirts_db
       = Return (Json (JList [serialize pants])) 200 []"
proof -
  have ft: "filter (\<lambda>p. available p = true_ci ''TrUe'')
              (base_collection [(''available'', ''TrUe'')] shirts_db) = [shirt, food_shirt]"
    by (simp add: base_collection_def truthy_def all_products_def shirts_db_def shirt_def
        pants_def food_shirt_def)
  have fy: "filter (\<lambda>p. available p = true_ci ''yes'')
              (base_collection [(''available'', ''yes'')] shirts_db) = [pants]"
    by (simp add: base_collection_def truthy_def all_products_def shirts_db_def shirt_def
        pants_def food_shirt_def)
  have t: "list_products [(''available'', ''TrUe'')] shirts_db = results [shirt, food_shirt]"
    using available_filter_never_fails [of "[(''available'', ''TrUe'')]" "''TrUe''" shirts_db] ft
    by (simp add: truthy_def)
  have y: "list_products [(''available'', ''yes'')] shirts_db = results [pants]"
    using available_filter_never_fails [of "[(''available'', ''yes'')]" "''yes''" shirts_db] fy
    by (simp add: truthy_def)
  show ?thesis
    by (simp add: t y results_def)
qed

text \<open>
  An \<^verbatim>\<open>available\<close> parameter with an empty value is not a filter for false: the
  answer still holds a record that is available.
\<close>

theorem empty_available_is_ignored:
  "lower [] \<noteq> ''true''
   \<and> available shirt = True
   \<and> list_products [(''available'', [])] shirt_db = Return (Json (JList [serialize shirt])) 200 []"
  by (simp add: lower_def list_products_def truthy_def all_products_def shirt_db_def results_def
      shirt_def)

subsection \<open>The stages in sequence\<close>

text \<open>
  C1: the filters are applied in sequence. The answer to a request that no stage
  refuses holds the records that the price stage keeps of what the availability stage
  keeps of what the category stage keeps of the base collection, and so does every
  successful answer; the base collection is the result of the name lookup when the
  \<^verbatim>\<open>name\<close> parameter has a value that is not empty, and every record otherwise; each
  stage returns a part of its input, in the same order. For the stored products
  Shirt/CLOTHS, Pants/CLOTHS and Shirt/FOOD the request \<^verbatim>\<open>name=Shirt&category=CLOTHS\<close>
  returns exactly the first.
\<close>

theorem list_products_filters_in_sequence:
  "(accepted args \<longrightarrow> no_snan db \<longrightarrow>
      list_products args db
        = Return (Json (JList (map serialize
            (price_filter args (available_filter args (category_filter args
               (base_collection args db))))))) 200 [])
   \<and> (\<forall>b st hs. list_products args db = Return b st hs \<longrightarrow>
         b = Json (JList (map serialize
               (price_filter args (available_filter args (category_filter args
                  (base_collection args db))))))
         \<and> st = 200)
   \<and> (\<forall>n. map_of args ''name'' = Some n \<longrightarrow> n \<noteq> [] \<longrightarrow>
         base_collection args db = find_by_name n db)
   \<and> (truthy (map_of args ''name'') = None \<longrightarrow> base_collection args db = all_products db)
   \<and> subseq (category_filter args xs) xs
   \<and> subseq (available_filter args xs) xs
   \<and> subseq (price_filter args xs) xs
   \<and> (name p1 = ''Shirt'' \<and> category p1 = CLOTHS \<and> name p2 = ''Pants'' \<and> category p2 = CLOTHS
        \<and> name p3 = ''Shirt'' \<and> category p3 = FOOD \<longrightarrow>
       list_products [(''name'', ''Shirt''), (''category'', ''CLOTHS'')]
           \<lparr>rows = [p1, p2, p3], next_id = k\<rparr>
         = Return (Json (JList [serialize p1])) 200 [])"
proof (intro conjI impI allI)
  assume "accepted args" and "no_snan db"
  then show "list_products args db
        = Return (Json (JList (map serialize
            (price_filter args (available_filter args (category_filter args
               (base_collection args db))))))) 200 []"
    using list_products_results [of args db] by (simp add: results_def)
next
  fix b st hs
  assume r: "list_products args db = Return b st hs"
  show "b = Json (JList (map serialize
             (price_filter args (available_filter args (category_filter args
                (base_collection args db))))))"
    using list_products_Return [OF r] by simp
  show "st = 200"
    using list_products_Return [OF r] by simp
next
  fix n
  assume "map_of args ''name'' = Some n" and "n \<noteq> []"
  then show "base_collection args db = find_by_name n db"
    by (simp add: base_collection_def truthy_def)
next
  assume "truthy (map_of args ''name'') = None"
  then show "base_collection args db = all_products db"
    by (simp add: base_collection_def)
next
  show "subseq (category_filter args xs) xs"
    by (simp add: category_filter_def split: option.splits)
  show "subseq (available_filter args xs) xs"
    by (simp add: available_filter_def split: option.splits)
  show "subseq (price_filter args xs) xs"
    by (simp add: price_filter_def split: option.splits)
next
  assume "name p1 = ''Shirt'' \<and> category p1 = CLOTHS \<and> name p2 = ''Pants'' \<and> category p2 = CLOTHS
        \<and> name p3 = ''Shirt'' \<and> category p3 = FOOD"
  then show "list_products [(''name'', ''Shirt''), (''category'', ''CLOTHS'')]
           \<lparr>rows = [p1, p2, p3], next_id = k\<rparr>
         = Return (Json (JList [serialize p1])) 200 []"
    by (simp add: list_products_def truthy_def find_by_name_def upper_examples
        Category_by_name_def results_def)
qed

theorem list_products_filters_in_sequence_witness:
  "accepted [(''name'', ''Shirt''), (''category'', ''CLOTHS'')]
   \<and> no_snan shirts_db
   \<and> list_products [(''name'', ''Shirt''), (''category'', ''CLOTHS'')] shirts_db
       = Return (Json (JList [serialize shirt])) 200 []
   \<and> base_collection [(''name'', ''Shirt''), (''category'', ''CLOTHS'')] shirts_db
       = [shirt, food_shirt]
   \<and> category_filter [(''name'', ''Shirt''), (''category'', ''CLOTHS'')] [shirt, food_shirt]
       = [shirt]"
proof -
  note T = list_products_filters_in_sequence
      [where args = "[(''name'', ''Shirt''), (''category'', ''CLOTHS'')]" and db = shirts_db
          and xs = "[]" and ?p1.0 = shirt and ?p2.0 = pants
          and ?p3.0 = food_shirt and k = 4]
  have names: "name shirt = ''Shirt'' \<and> category shirt = CLOTHS \<and> name pants = ''Pants''
      \<and> category pants = CLOTHS \<and> name food_shirt = ''Shirt'' \<and> category food_shirt = FOOD"
    by (simp add: shirt_def pants_def food_shirt_def)
  have r: "list_products [(''name'', ''Shirt''), (''category'', ''CLOTHS'')] shirts_db
     = Return (Json (JList [serialize shirt])) 200 []"
    using T names unfolding shirts_db_def by blast
  have a: "accepted [(''name'', ''Shirt''), (''category'', ''CLOTHS'')]"
    by (simp add: accepted_def truthy_def upper_examples Category_by_name_def)
  have n: "no_snan shirts_db"
    by (simp add: no_snan_def shirts_db_def shirt_def pants_def food_shirt_def)
  have b: "base_collection [(''name'', ''Shirt''), (''category'', ''CLOTHS'')] shirts_db
             = [shirt, food_shirt]"
    by (simp add: base_collection_def truthy_def find_by_name_def shirts_db_def shirt_def
        pants_def food_shirt_def)
  have c: "category_filter [(''name'', ''Shirt''), (''category'', ''CLOTHS'')] [shirt, food_shirt]
             = [shirt]"
    by (simp add: category_filter_def truthy_def upper_examples Category_by_name_def shirt_def
        food_shirt_def)
  show ?thesis
    by (simp only: r a n b c simp_thms)
qed

text \<open>
  A \<^verbatim>\<open>name\<close> parameter with an empty value does not replace the base collection by
  the result of the lookup, which is empty: the answer holds every record.
\<close>

theorem empty_name_is_ignored:
  "find_by_name [] shirt_db = []
   \<and> list_products [(''name'', [])] shirt_db = Return (Json (JList [serialize shirt])) 200 []"
  by (simp add: find_by_name_def list_products_def truthy_def all_products_def shirt_db_def
      results_def shirt_def)

section \<open>Deleting a product\<close>

lemma delete_products_outcome:
  "fst (delete_products i db) = Return (Text []) 204 []"
  by (simp add: delete_products_def Let_def)

text \<open>
  C9: DELETE is idempotent at the HTTP boundary. For every id and every store the
  handler answers 204 with an empty body, whether or not a record with that id exists;
  a second DELETE of the same id, issued on the store the first one left, answers the
  same, and after a DELETE no record with that id is left.
\<close>

theorem delete_products_idempotent:
  "fst (delete_products i db) = Return (Text []) 204 []
   \<and> fst (delete_products i (snd (delete_products i db))) = Return (Text []) 204 []
   \<and> find_product i (snd (delete_products i db)) = None"
proof -
  have gone: "find_product i (snd (delete_products i db)) = None"
  proof (cases "find_product i db")
    case None
    then show ?thesis by (simp add: delete_products_def)
  next
    case (Some p)
    then have "id_field p = Some i"
      by (auto simp: find_product_def find_Some_iff)
    then have "find (\<lambda>q. id_field q = Some i) (filter (\<lambda>q. id_field q \<noteq> id_field p) (rows db)) = None"
      by (simp add: find_None_iff)
    with Some show ?thesis
      by (simp add: delete_products_def delete_def find_product_def)
  qed
  show ?thesis
    using gone by (simp add: delete_products_outcome)
qed

end
